theory Spec2Isabelle
  imports Main "HOL-Library.Word"
begin

section \<open>JavaScript values\<close>

text \<open>
  A JavaScript string is a sequence of 16-bit UTF-16 code units; the Korean messages of
  the two pages are written out as their code units.  ASCII literals of the source
  (\<open>'Enter'\<close>, \<open>'Spring'\<close>, ...) are embedded with \<open>ascii\<close>.
\<close>

type_synonym code_unit = "16 word"
type_synonym jsstring = "code_unit list"

definition ascii :: "string \<Rightarrow> jsstring" where
  "ascii s = map (\<lambda>c. word_of_nat (of_char c)) s"

text \<open>
  \<open>String.prototype.trim\<close> removes the ECMAScript WhiteSpace and LineTerminator code
  points from both ends of the string.
\<close>

definition isWhiteSpace :: "code_unit \<Rightarrow> bool" where
  "isWhiteSpace c \<longleftrightarrow>
     List.member
       [0x0009, 0x000A, 0x000B, 0x000C, 0x000D, 0x0020, 0x00A0, 0x1680,
        0x2000, 0x2001, 0x2002, 0x2003, 0x2004, 0x2005, 0x2006, 0x2007,
        0x2008, 0x2009, 0x200A, 0x2028, 0x2029, 0x202F, 0x205F, 0x3000, 0xFEFF] c"

definition trim :: "jsstring \<Rightarrow> jsstring" where
  "trim s = rev (dropWhile isWhiteSpace (rev (dropWhile isWhiteSpace s)))"

text \<open>A \<open>Date\<close> object holds a time value in milliseconds, or NaN (an invalid date).\<close>

datatype Date = TimeValue int | InvalidDate

text \<open>A browser \<open>File\<close> picked in the file input, identified by a handle.\<close>

datatype File = FileHandle nat

section \<open>Page state\<close>

text \<open>
  Both pages hold the same state: the values and errors of the react-hook-form form
  (\<open>getValues\<close>, \<open>setValue\<close>, \<open>setError\<close>, \<open>clearErrors\<close>; fields \<open>form_*\<close> and
  \<open>errors_tags\<close>) and the \<open>useState\<close> cells, which keep the names of the source.
  A form value is \<open>None\<close> while it is \<open>undefined\<close>; \<open>tags\<close> starts as \<open>[]\<close>
  (\<open>defaultValues\<close>), and a text input bound with \<open>register\<close> holds the empty
  string from the mount on.  \<open>errors_*\<close> are the entries of \<open>formState.errors\<close>.
\<close>

record field_error =
  errType :: jsstring
  message :: jsstring

record page =
  form_imageSrc :: "jsstring option"
  form_title :: "jsstring option"
  form_day :: "jsstring option"
  form_startTime :: "jsstring option"
  form_endTime :: "jsstring option"
  form_campus :: "jsstring option"
  form_level :: "jsstring option"
  form_tags :: "jsstring list"
  form_description :: "jsstring option"
  errors_imageSrc :: "field_error option"
  errors_title :: "field_error option"
  errors_day :: "field_error option"
  errors_startTime :: "field_error option"
  errors_endTime :: "field_error option"
  errors_campus :: "field_error option"
  errors_level :: "field_error option"
  errors_tags :: "field_error option"
  errors_description :: "field_error option"
  imageFile :: "File option"
  image :: jsstring
  stackError :: jsstring
  currentTag :: jsstring
  startTime :: "Date option"
  endTime :: "Date option"

text \<open>
  The open-study page after its mount: \<open>title\<close> and \<open>description\<close> are bound with
  \<open>register\<close>.
\<close>

definition initial_page :: page where
  "initial_page =
     \<lparr> form_imageSrc = None, form_title = Some [], form_day = None, form_startTime = None,
       form_endTime = None, form_campus = None, form_level = None, form_tags = [],
       form_description = Some [], errors_imageSrc = None, errors_title = None,
       errors_day = None, errors_startTime = None, errors_endTime = None,
       errors_campus = None, errors_level = None, errors_tags = None,
       errors_description = None, imageFile = None, image = [],
       stackError = [], currentTag = [], startTime = None, endTime = None \<rparr>"

section \<open>Tag editor\<close>

text \<open>The message of \<open>setTagError\<close> at capacity (Korean, 21 code units).\<close>

definition capacity_msg :: jsstring where
  "capacity_msg =
     [0xC2A4, 0xD0DD, 0xC740, 0x0020, 0xCD5C, 0xB300, 0x0020, 0x0034, 0xAC1C, 0xAE4C,
      0xC9C0, 0xB9CC, 0x0020, 0xC785, 0xB825, 0x0020, 0xAC00, 0xB2A5, 0xD569, 0xB2C8,
      0xB2E4]"

text \<open>The message of the \<open>Duplicate\<close> field error (Korean, 12 code units).\<close>

definition duplicate_msg :: jsstring where
  "duplicate_msg =
     [0xC911, 0xBCF5, 0x0020, 0xC2A4, 0xD0DD, 0xC774, 0x0020, 0xC874, 0xC7AC, 0xD569,
      0xB2C8, 0xB2E4]"

definition handleTagChange :: "jsstring \<Rightarrow> 'a page_scheme \<Rightarrow> 'a page_scheme" where
  "handleTagChange v st = st\<lparr>currentTag := v\<rparr>"

text \<open>
  \<open>handleDuplicateTag\<close> reads the \<open>currentTag\<close> cell, not the trimmed text of the
  key event.  \<open>getValues('tags')\<close> is an array, hence truthy, so \<open>setValue\<close> stores
  \<open>newTag\<close>.
\<close>

definition handleDuplicateTag :: "'a page_scheme \<Rightarrow> 'a page_scheme" where
  "handleDuplicateTag st =
     (let newTag = form_tags st @ [currentTag st];
          st1 = (if card (set newTag) = length (form_tags st)
                 then st\<lparr>errors_tags :=
                          Some \<lparr>errType = ascii ''Duplicate'', message = duplicate_msg\<rparr>\<rparr>
                 else st\<lparr>errors_tags := None, form_tags := newTag\<rparr>)
      in st1\<lparr>currentTag := []\<rparr>)"

text \<open>
  \<open>handleTagAdd\<close> is the \<open>onKeyUp\<close> handler of the tag input: \<open>key\<close> is \<open>e.key\<close> and
  \<open>val\<close> is \<open>e.currentTarget.value\<close>.  \<open>watchedTags\<close> and \<open>getValues('tags')\<close>
  read the same form value.
\<close>

definition handleTagAdd :: "jsstring \<Rightarrow> jsstring \<Rightarrow> 'a page_scheme \<Rightarrow> 'a page_scheme" where
  "handleTagAdd key val st =
     (let newTag = trim val;
          st1 = (if length (form_tags st) = 4
                 then (if newTag \<noteq> [] then st\<lparr>stackError := capacity_msg\<rparr>
                       else st\<lparr>stackError := []\<rparr>)
                 else st)
      in if key = ascii ''Enter'' \<and> newTag \<noteq> []
         then (if length (form_tags st) \<noteq> 4 then handleDuplicateTag st1
               else st1\<lparr>currentTag := []\<rparr>)
         else st1)"

text \<open>
  The \<open>+\<close> button calls \<open>handleDuplicateTag\<close> and is disabled while the input is blank
  or four tags are present; a disabled button receives no click.
\<close>

definition addButtonDisabled :: "'a page_scheme \<Rightarrow> bool" where
  "addButtonDisabled st \<longleftrightarrow> trim (currentTag st) = [] \<or> length (form_tags st) \<ge> 4"

definition clickAddButton :: "'a page_scheme \<Rightarrow> 'a page_scheme" where
  "clickAddButton st = (if addButtonDisabled st then st else handleDuplicateTag st)"

text \<open>The \<open>Reset\<close> button.\<close>

definition clickReset :: "'a page_scheme \<Rightarrow> 'a page_scheme" where
  "clickReset st = st\<lparr>stackError := [], errors_tags := None, form_tags := []\<rparr>"

text \<open>The user's actions on the tag editor, and a run of them.\<close>

datatype tag_event =
    TagChange jsstring
  | TagKeyUp jsstring jsstring
  | ClickAdd
  | ClickReset

fun tag_step :: "'a page_scheme \<Rightarrow> tag_event \<Rightarrow> 'a page_scheme" where
  "tag_step st (TagChange v) = handleTagChange v st"
| "tag_step st (TagKeyUp key val) = handleTagAdd key val st"
| "tag_step st ClickAdd = clickAddButton st"
| "tag_step st ClickReset = clickReset st"

definition tag_run :: "'a page_scheme \<Rightarrow> tag_event list \<Rightarrow> 'a page_scheme" where
  "tag_run st evs = foldl tag_step st evs"

section \<open>Time selector\<close>

text \<open>
  \<open>formatDateToTime\<close> is imported from \<open>components/ui/time-picker-utils\<close>, another
  module of the application; the handlers take it as a parameter.
\<close>

definition onChangeStartTime ::
    "(Date \<Rightarrow> jsstring) \<Rightarrow> Date option \<Rightarrow> 'a page_scheme \<Rightarrow> 'a page_scheme" where
  "onChangeStartTime formatDateToTime date st =
     (case date of
        None \<Rightarrow> st
      | Some d \<Rightarrow> st\<lparr>form_startTime := Some (formatDateToTime d), startTime := Some d\<rparr>)"

definition onChangeEndTime ::
    "(Date \<Rightarrow> jsstring) \<Rightarrow> Date option \<Rightarrow> 'a page_scheme \<Rightarrow> 'a page_scheme" where
  "onChangeEndTime formatDateToTime date st =
     (case date of
        None \<Rightarrow> st
      | Some d \<Rightarrow> st\<lparr>form_endTime := Some (formatDateToTime d), endTime := Some d\<rparr>)"

section \<open>Collaborators and effects\<close>

text \<open>
  A thrown value: an \<open>Error\<close> with its message, a \<open>TypeError\<close>, the error thrown by
  \<open>notFound()\<close> of \<open>next/navigation\<close>, or a rejection raised inside a collaborator.
\<close>

datatype exn =
    Error jsstring
  | TypeError
  | NEXT_NOT_FOUND
  | Rejected nat

text \<open>JSON values, and objects as maps from property names.\<close>

datatype jsvalue =
    JStr jsstring
  | JNum int
  | JBool bool
  | JArr "jsvalue list"

type_synonym jsobject = "string \<rightharpoonup> jsvalue"

text \<open>The options handed to \<open>fetchData\<close>; \<open>body\<close> is the object given to \<open>JSON.stringify\<close>.\<close>

record request =
  body :: jsobject
  contentType :: jsstring
  authorization :: jsstring
  credentials :: jsstring

text \<open>The record inside the \<open>data\<close> field of the RETRIEVE envelope.\<close>

record study_data =
  sd_imageSrc :: jsstring
  sd_title :: jsstring
  sd_day :: jsstring
  sd_startTime :: jsstring
  sd_endTime :: jsstring
  sd_campus :: jsstring
  sd_level :: jsstring
  sd_tags :: "jsstring list"
  sd_description :: jsstring
  sd_isRecruiting :: bool

text \<open>
  A \<open>Response\<close>: \<open>json\<close> is what \<open>(await res.json()).data\<close> yields: a rejection of
  \<open>res.json()\<close>, \<open>undefined\<close> (\<open>None\<close>), or the record.
\<close>

record response =
  ok :: bool
  status :: nat
  json :: "exn + study_data option"

record toast_msg =
  title :: jsstring
  description :: jsstring
  destructive :: bool

text \<open>The routes of \<open>constants/routes\<close> that the pages use, as symbols.\<close>

datatype route = ROUTES_STUDY_index | ROUTES_LOGIN

text \<open>
  Every call a page makes to a collaborator, in the order of the calls.  An uploaded
  object is named by the URL the storage returned for it.
\<close>

datatype effect =
    ClickCloseDialog
  | Upload File
  | FetchCreate request
  | FetchRetrieve nat
  | FileDelete jsstring
  | FileCommit jsstring
  | Toast toast_msg
  | RouterPush route
  | ConsoleError exn

text \<open>
  The answers of the collaborators, which live outside the two pages: the
  storage hook \<open>useSupabaseFile\<close> (\<open>upload\<close> resolves to a file object with its
  \<open>supabaseFileData.url\<close>, or rejects; \<open>delete\<close> resolves or rejects), the backend
  behind \<open>fetchData\<close>, and for the time pickers the \<open>Date\<close> that \<open>new Date()\<close>
  followed by \<open>setHours(parseInt(hours), parseInt(minutes))\<close> gives.
\<close>

record collab =
  env_upload :: "File \<Rightarrow> exn + jsstring"
  env_delete :: "jsstring \<Rightarrow> exn + unit"
  env_create :: "request \<Rightarrow> exn + response"
  env_retrieve :: "nat \<Rightarrow> exn + response"
  env_dateAt :: "jsstring \<Rightarrow> jsstring option \<Rightarrow> Date"

section \<open>Create flow: \<open>onSubmit\<close> of the open-study page\<close>

text \<open>Title and description of the success toast (Korean, 9 and 19 code units).\<close>

definition created_toast :: toast_msg where
  "created_toast =
     \<lparr> title = [0xC2A4, 0xD130, 0xB514, 0x0020, 0xC0DD, 0xC131, 0x0020, 0xC644, 0xB8CC],
       description =
         [0xC2A4, 0xD130, 0xB514, 0xAC00, 0x0020, 0xC131, 0xACF5, 0xC801, 0xC73C, 0xB85C,
          0x0020, 0xC0DD, 0xC131, 0xB418, 0xC5C8, 0xC2B5, 0xB2C8, 0xB2E4, 0x002E],
       destructive = False \<rparr>"

text \<open>The object literal \<open>{...data, imageSrc: fileUrl, isRecruiting: true, ...}\<close>.\<close>

definition create_payload :: "jsobject \<Rightarrow> jsstring \<Rightarrow> jsobject" where
  "create_payload data fileUrl =
     data(''imageSrc'' \<mapsto> JStr fileUrl,
          ''isRecruiting'' \<mapsto> JBool True,
          ''semester'' \<mapsto> JStr (ascii ''Spring''),
          ''year'' \<mapsto> JNum 2025)"

definition create_request :: "jsstring \<Rightarrow> jsobject \<Rightarrow> jsstring \<Rightarrow> request" where
  "create_request accessToken data fileUrl =
     \<lparr> body = create_payload data fileUrl,
       contentType = ascii ''application/json'',
       authorization = ascii ''Bearer '' @ accessToken,
       credentials = ascii ''include'' \<rparr>"

text \<open>
  \<open>onSubmit\<close> changes no page state.  It returns how the promise settles (\<open>Inl\<close>: it
  rejects, since the function has no \<open>try\<close>) and the calls it made.
\<close>

definition onSubmit ::
    "collab \<Rightarrow> jsstring \<Rightarrow> 'a page_scheme \<Rightarrow> jsobject \<Rightarrow> (exn + unit) \<times> effect list" where
  "onSubmit env accessToken st data =
     (case imageFile st of
        None \<Rightarrow> (Inr (), [ClickCloseDialog])
      | Some f \<Rightarrow>
          (case env_upload env f of
             Inl e \<Rightarrow> (Inl e, [ClickCloseDialog, Upload f])
           | Inr fileUrl \<Rightarrow>
               (let req = create_request accessToken data fileUrl in
                case env_create env req of
                  Inl e \<Rightarrow> (Inl e, [ClickCloseDialog, Upload f, FetchCreate req])
                | Inr res \<Rightarrow>
                    if \<not> ok res
                    then (env_delete env fileUrl,
                          [ClickCloseDialog, Upload f, FetchCreate req, FileDelete fileUrl])
                    else (Inr (),
                          [ClickCloseDialog, Upload f, FetchCreate req, FileCommit fileUrl,
                           Toast created_toast, RouterPush ROUTES_STUDY_index]))))"

section \<open>Create flow: the schema and \<open>handleSubmit\<close>\<close>

text \<open>
  The messages and the option lists of \<open>schema\<close>, the zod object of the page.
\<close>

text \<open>A message of the schema (Korean, 12 code units).\<close>

definition image_required_msg :: jsstring where
  "image_required_msg =
     [0xC774, 0xBBF8, 0xC9C0, 0xB97C, 0x0020, 0xC5C5, 0xB85C, 0xB4DC, 0xD574, 0xC8FC,
      0xC138, 0xC694]"

text \<open>A message of the schema (Korean, 14 code units).\<close>

definition title_msg :: jsstring where
  "title_msg =
     [0xC2A4, 0xD130, 0xB514, 0x0020, 0xC81C, 0xBAA9, 0xC744, 0x0020, 0xC785, 0xB825,
      0xD574, 0xC8FC, 0xC138, 0xC694]"

text \<open>A message of the schema (Korean, 10 code units).\<close>

definition day_required_msg :: jsstring where
  "day_required_msg =
     [0xC694, 0xC77C, 0xC744, 0x0020, 0xC120, 0xD0DD, 0xD574, 0xC8FC, 0xC138, 0xC694]"

text \<open>A message of the schema (Korean, 14 code units).\<close>

definition time_required_msg :: jsstring where
  "time_required_msg =
     [0xC2A4, 0xD130, 0xB514, 0x0020, 0xC2DC, 0xAC04, 0xC744, 0x0020, 0xC785, 0xB825,
      0xD574, 0xC8FC, 0xC138, 0xC694]"

text \<open>A message of the schema (Korean, 11 code units).\<close>

definition campus_required_msg :: jsstring where
  "campus_required_msg =
     [0xCEA0, 0xD37C, 0xC2A4, 0xB97C, 0x0020, 0xC120, 0xD0DD, 0xD574, 0xC8FC, 0xC138,
      0xC694]"

text \<open>A message of the schema (Korean, 11 code units).\<close>

definition level_required_msg :: jsstring where
  "level_required_msg =
     [0xB09C, 0xC774, 0xB3C4, 0xB97C, 0x0020, 0xC120, 0xD0DD, 0xD574, 0xC8FC, 0xC138,
      0xC694]"

text \<open>A message of the schema (Korean, 10 code units).\<close>

definition tags_msg :: jsstring where
  "tags_msg =
     [0xC2A4, 0xD0DD, 0xC744, 0x0020, 0xC785, 0xB825, 0xD574, 0xC8FC, 0xC138, 0xC694]"

text \<open>A message of the schema (Korean, 10 code units).\<close>

definition description_min_msg :: jsstring where
  "description_min_msg =
     [0xC124, 0xBA85, 0xC744, 0x0020, 0xC785, 0xB825, 0xD574, 0xC8FC, 0xC138, 0xC694]"

text \<open>A message of the schema (Korean, 19 code units).\<close>

definition description_max_msg :: jsstring where
  "description_max_msg =
     [0xC124, 0xBA85, 0xC740, 0x0020, 0x0038, 0x0030, 0x0030, 0xC790, 0x0020, 0xC774,
      0xB0B4, 0xB85C, 0x0020, 0xC785, 0xB825, 0xD574, 0xC8FC, 0xC138, 0xC694]"

definition dayOptions :: "jsstring list" where
  "dayOptions =
     [[0xC6D4], [0xD654], [0xC218], [0xBAA9], [0xAE08], [0xD1A0], [0xC77C]]"

definition campusOptions :: "jsstring list" where
  "campusOptions =
     [[0xC728, 0xC804], [0xBA85, 0xB95C], [0xC628, 0xB77C, 0xC778]]"

definition levelOptions :: "jsstring list" where
  "levelOptions =
     [[0xCD08, 0xAE09], [0xC911, 0xAE09], [0xACE0, 0xAE09]]"

text \<open>
  The zod library gives every issue a code, and a message of its own where the schema
  names none.  Both are texts of the library and stay parameters; for an enum the
  message depends on the value received.
\<close>

datatype issue_kind = InvalidType | TooSmall | TooBig | InvalidEnumValue

record zod_lib =
  z_code :: "issue_kind \<Rightarrow> jsstring"
  z_message :: "issue_kind \<Rightarrow> jsstring option \<Rightarrow> jsstring"

definition issue :: "zod_lib \<Rightarrow> issue_kind \<Rightarrow> jsstring \<Rightarrow> field_error" where
  "issue zod k m = \<lparr>errType = z_code zod k, message = m\<rparr>"

text \<open>\<open>z.string({ required_error })\<close>: only \<open>undefined\<close> fails.\<close>

definition schema_required ::
    "zod_lib \<Rightarrow> jsstring \<Rightarrow> jsstring option \<Rightarrow> field_error option" where
  "schema_required zod required_error v =
     (case v of
        None \<Rightarrow> Some (issue zod InvalidType required_error)
      | Some _ \<Rightarrow> None)"

text \<open>\<open>.min(n, { message })\<close> and \<open>.max(n, { message })\<close> on a length.\<close>

definition schema_min :: "zod_lib \<Rightarrow> nat \<Rightarrow> jsstring \<Rightarrow> nat \<Rightarrow> field_error option" where
  "schema_min zod n m len = (if len < n then Some (issue zod TooSmall m) else None)"

definition schema_max :: "zod_lib \<Rightarrow> nat \<Rightarrow> jsstring \<Rightarrow> nat \<Rightarrow> field_error option" where
  "schema_max zod n m len = (if len > n then Some (issue zod TooBig m) else None)"

text \<open>\<open>z.enum(options, { required_error })\<close>.\<close>

definition schema_enum ::
    "zod_lib \<Rightarrow> jsstring list \<Rightarrow> jsstring \<Rightarrow> jsstring option \<Rightarrow> field_error option" where
  "schema_enum zod options required_error v =
     (case v of
        None \<Rightarrow> Some (issue zod InvalidType required_error)
      | Some s \<Rightarrow>
          if List.member options s then None
          else Some (issue zod InvalidEnumValue (z_message zod InvalidEnumValue (Some s))))"

text \<open>\<open>title: z.string().min(1, ...)\<close>.\<close>

definition schema_title :: "zod_lib \<Rightarrow> jsstring option \<Rightarrow> field_error option" where
  "schema_title zod v =
     (case v of
        None \<Rightarrow> Some (issue zod InvalidType (z_message zod InvalidType None))
      | Some s \<Rightarrow> schema_min zod 1 title_msg (length s))"

text \<open>
  \<open>description: z.string().min(1, ...).max(800, ...)\<close>; the form keeps the first issue
  of a field.
\<close>

definition schema_description :: "zod_lib \<Rightarrow> jsstring option \<Rightarrow> field_error option" where
  "schema_description zod v =
     (case v of
        None \<Rightarrow> Some (issue zod InvalidType (z_message zod InvalidType None))
      | Some s \<Rightarrow>
          (case schema_min zod 1 description_min_msg (length s) of
             Some e \<Rightarrow> Some e
           | None \<Rightarrow> schema_max zod 800 description_max_msg (length s)))"

text \<open>
  The resolver run on the values of the form: \<open>formState.errors\<close> becomes what the
  schema finds, field by field.  This is also what \<open>trigger()\<close> does.
\<close>

definition validate_form :: "zod_lib \<Rightarrow> 'a page_scheme \<Rightarrow> 'a page_scheme" where
  "validate_form zod st =
     st\<lparr> errors_imageSrc := schema_required zod image_required_msg (form_imageSrc st),
         errors_title := schema_title zod (form_title st),
         errors_day := schema_enum zod dayOptions day_required_msg (form_day st),
         errors_startTime := schema_required zod time_required_msg (form_startTime st),
         errors_endTime := schema_required zod time_required_msg (form_endTime st),
         errors_campus := schema_enum zod campusOptions campus_required_msg (form_campus st),
         errors_level := schema_enum zod levelOptions level_required_msg (form_level st),
         errors_tags := schema_min zod 1 tags_msg (length (form_tags st)),
         errors_description := schema_description zod (form_description st) \<rparr>"

definition no_errors :: "'a page_scheme \<Rightarrow> bool" where
  "no_errors st \<longleftrightarrow>
     errors_imageSrc st = None \<and> errors_title st = None \<and> errors_day st = None \<and>
     errors_startTime st = None \<and> errors_endTime st = None \<and> errors_campus st = None \<and>
     errors_level st = None \<and> errors_tags st = None \<and> errors_description st = None"

text \<open>The object of the nine values that the callback receives as \<open>data\<close>.\<close>

definition form_data :: "'a page_scheme \<Rightarrow> jsobject" where
  "form_data st =
     (\<lambda>k. if k = ''imageSrc'' then map_option JStr (form_imageSrc st)
          else if k = ''title'' then map_option JStr (form_title st)
          else if k = ''day'' then map_option JStr (form_day st)
          else if k = ''startTime'' then map_option JStr (form_startTime st)
          else if k = ''endTime'' then map_option JStr (form_endTime st)
          else if k = ''campus'' then map_option JStr (form_campus st)
          else if k = ''level'' then map_option JStr (form_level st)
          else if k = ''tags'' then Some (JArr (map JStr (form_tags st)))
          else if k = ''description'' then map_option JStr (form_description st)
          else None)"

text \<open>
  \<open>handleSubmit(onSubmit)\<close>, the handler of the form's \<open>onSubmit\<close> and of the confirm
  button: react-hook-form runs the resolver and calls \<open>onSubmit\<close> with the data only
  when the schema finds no issue; otherwise it keeps the errors and calls nothing.
\<close>

definition handleSubmit ::
    "zod_lib \<Rightarrow> collab \<Rightarrow> jsstring \<Rightarrow> 'a page_scheme
       \<Rightarrow> 'a page_scheme \<times> (exn + unit) \<times> effect list" where
  "handleSubmit zod env accessToken st =
     (let st' = validate_form zod st
      in if no_errors st'
         then (st', onSubmit env accessToken st' (form_data st'))
         else (st', Inr (), []))"

text \<open>
  \<open>handleFileChange\<close>, the only place that sets \<open>imageFile\<close> or the \<open>imageSrc\<close> value
  on the open-study page; \<open>URL.createObjectURL\<close> is a parameter.
\<close>

definition handleFileChange ::
    "(File \<Rightarrow> jsstring) \<Rightarrow> File list \<Rightarrow> 'a page_scheme \<Rightarrow> 'a page_scheme" where
  "handleFileChange createObjectURL targetFiles st =
     (case targetFiles of
        [] \<Rightarrow> st
      | f # _ \<Rightarrow>
          (let selectedFile = createObjectURL f
           in st\<lparr>image := selectedFile, form_imageSrc := Some selectedFile,
                 imageFile := Some f\<rparr>))"

text \<open>
  What the open-study page lets its user do, and a run of such actions.  The submit
  button of the page calls \<open>trigger()\<close> and clears the capacity message when
  \<open>isValid\<close>, the flag of the last render, is set; the event carries that flag.  The
  text area validates \<open>description\<close> at every input.
\<close>

record page_env =
  pe_zod :: zod_lib
  pe_collab :: collab
  pe_accessToken :: jsstring
  pe_formatDateToTime :: "Date \<Rightarrow> jsstring"
  pe_createObjectURL :: "File \<Rightarrow> jsstring"

datatype page_event =
    TagEvent tag_event
  | FileChange "File list"
  | StartTimeChange "Date option"
  | EndTimeChange "Date option"
  | TitleInput jsstring
  | DescriptionInput jsstring
  | DaySelect jsstring
  | CampusSelect jsstring
  | LevelSelect jsstring
  | ClickSubmitButton bool
  | SubmitForm

fun open_step :: "page_env \<Rightarrow> 'a page_scheme \<Rightarrow> page_event \<Rightarrow> 'a page_scheme" where
  "open_step env st (TagEvent ev) = tag_step st ev"
| "open_step env st (FileChange targetFiles) =
     handleFileChange (pe_createObjectURL env) targetFiles st"
| "open_step env st (StartTimeChange date) =
     onChangeStartTime (pe_formatDateToTime env) date st"
| "open_step env st (EndTimeChange date) =
     onChangeEndTime (pe_formatDateToTime env) date st"
| "open_step env st (TitleInput v) = st\<lparr>form_title := Some v\<rparr>"
| "open_step env st (DescriptionInput v) =
     st\<lparr>form_description := Some v,
        errors_description := schema_description (pe_zod env) (Some v)\<rparr>"
| "open_step env st (DaySelect v) = st\<lparr>form_day := Some v\<rparr>"
| "open_step env st (CampusSelect v) = st\<lparr>form_campus := Some v\<rparr>"
| "open_step env st (LevelSelect v) = st\<lparr>form_level := Some v\<rparr>"
| "open_step env st (ClickSubmitButton isValid) =
     (let st' = validate_form (pe_zod env) st
      in if isValid then st'\<lparr>stackError := []\<rparr> else st')"
| "open_step env st SubmitForm =
     fst (handleSubmit (pe_zod env) (pe_collab env) (pe_accessToken env) st)"

definition open_run :: "page_env \<Rightarrow> 'a page_scheme \<Rightarrow> page_event list \<Rightarrow> 'a page_scheme" where
  "open_run env st evs = foldl (open_step env) st evs"

section \<open>Edit flow: loading the record\<close>

record edit_page = page +
  description_cell :: jsstring
  isLoading :: bool
  isRecruiting :: bool

text \<open>\<open>useSession()\<close>: \<open>null\<close> while loading, \<open>{error}\<close>, or \<open>{data}\<close> with the access token.\<close>

datatype session = SessionNull | SessionError | SessionData jsstring

text \<open>
  Modelled from the spec: \<open>HttpStatusCode.NotFound\<close>, imported from
  \<open>app/api/utils/httpConsts\<close>, is the 404 status.
\<close>

definition HttpStatusCode_NotFound :: nat where
  "HttpStatusCode_NotFound = 404"

text \<open>\<open>notFound()\<close> of \<open>next/navigation\<close> has return type \<open>never\<close>: it throws.\<close>

definition notFound :: "exn + unit" where
  "notFound = Inl NEXT_NOT_FOUND"

text \<open>The message of the \<open>Error\<close> thrown at a failed load (Korean, 26 code units).\<close>

definition load_error_msg :: jsstring where
  "load_error_msg =
     [0xC2A4, 0xD130, 0xB514, 0x0020, 0xC815, 0xBCF4, 0xB97C, 0x0020, 0xBD88, 0xB7EC,
      0xC624, 0xB294, 0x0020, 0xC911, 0x0020, 0xC624, 0xB958, 0xAC00, 0x0020, 0xBC1C,
      0xC0DD, 0xD588, 0xC2B5, 0xB2C8, 0xB2E4, 0x002E]"

text \<open>The destructive toast of the \<open>catch\<close> block (its title: Korean, 14 code units).\<close>

definition load_failed_toast :: toast_msg where
  "load_failed_toast =
     \<lparr> title = [0xC2A4, 0xD130, 0xB514, 0x0020, 0xC815, 0xBCF4, 0x0020, 0xBD88, 0xB7EC,
                0xC624, 0xAE30, 0x0020, 0xC2E4, 0xD328],
       description = load_error_msg,
       destructive = True \<rparr>"

text \<open>\<open>s.split(':')\<close>, and the destructuring \<open>[hours, minutes]\<close> of its result.\<close>

fun split_colon :: "jsstring \<Rightarrow> jsstring list" where
  "split_colon [] = [[]]"
| "split_colon (c # cs) =
     (if c = 0x3A then [] # split_colon cs
      else (case split_colon cs of
              [] \<Rightarrow> [[c]]
            | p # ps \<Rightarrow> (c # p) # ps))"

definition pickerDate :: "collab \<Rightarrow> jsstring \<Rightarrow> Date" where
  "pickerDate env s =
     (case split_colon s of
        [] \<Rightarrow> env_dateAt env [] None
      | [hours] \<Rightarrow> env_dateAt env hours None
      | hours # minutes # _ \<Rightarrow> env_dateAt env hours (Some minutes))"

text \<open>The statements of the \<open>try\<close> block once \<open>studyData\<close> is read.\<close>

definition hydrate :: "collab \<Rightarrow> study_data \<Rightarrow> 'a edit_page_scheme \<Rightarrow> 'a edit_page_scheme" where
  "hydrate env studyData st =
     (let st1 = st\<lparr> form_imageSrc := Some (sd_imageSrc studyData),
                    form_title := Some (sd_title studyData),
                    form_day := Some (sd_day studyData),
                    form_startTime := Some (sd_startTime studyData),
                    form_endTime := Some (sd_endTime studyData),
                    form_campus := Some (sd_campus studyData),
                    form_level := Some (sd_level studyData),
                    form_tags := sd_tags studyData,
                    form_description := Some (sd_description studyData),
                    description_cell := sd_description studyData,
                    image := sd_imageSrc studyData,
                    isRecruiting := sd_isRecruiting studyData \<rparr>;
          st2 = (if sd_startTime studyData \<noteq> []
                 then st1\<lparr>startTime := Some (pickerDate env (sd_startTime studyData))\<rparr>
                 else st1)
      in if sd_endTime studyData \<noteq> []
         then st2\<lparr>endTime := Some (pickerDate env (sd_endTime studyData))\<rparr>
         else st2)"

text \<open>
  The \<open>try\<close> block of \<open>fetchStudy\<close>.  The \<open>case\<close> of the \<open>switch\<close> has no \<open>break\<close>:
  were \<open>notFound()\<close> to return, control would fall through to the \<open>throw\<close> of
  \<open>default\<close>.
\<close>

definition fetchStudy_try ::
    "collab \<Rightarrow> nat \<Rightarrow> 'a edit_page_scheme \<Rightarrow> exn + 'a edit_page_scheme" where
  "fetchStudy_try env ident st =
     (case env_retrieve env ident of
        Inl e \<Rightarrow> Inl e
      | Inr res \<Rightarrow>
          if \<not> ok res
          then (if status res = HttpStatusCode_NotFound
                then (case notFound of
                        Inl e \<Rightarrow> Inl e
                      | Inr _ \<Rightarrow> Inl (Error load_error_msg))
                else Inl (Error load_error_msg))
          else (case json res of
                  Inl e \<Rightarrow> Inl e
                | Inr None \<Rightarrow> Inl TypeError
                | Inr (Some studyData) \<Rightarrow> Inr (hydrate env studyData st)))"

text \<open>
  \<open>fetchStudy\<close>: the \<open>catch\<close> block takes every thrown value, logs it and raises the
  destructive toast; \<open>finally\<close> clears \<open>isLoading\<close>.  Nothing is thrown after the
  first \<open>setValue\<close>, so a caught run has set no value.
\<close>

definition fetchStudy ::
    "collab \<Rightarrow> nat \<Rightarrow> 'a edit_page_scheme \<Rightarrow> 'a edit_page_scheme \<times> effect list" where
  "fetchStudy env ident st =
     (case fetchStudy_try env ident st of
        Inl e \<Rightarrow> (st\<lparr>isLoading := False\<rparr>,
                  [FetchRetrieve ident, ConsoleError e, Toast load_failed_toast])
      | Inr st' \<Rightarrow> (st'\<lparr>isLoading := False\<rparr>, [FetchRetrieve ident]))"

text \<open>The effect run on mount: it returns at once without a usable session.\<close>

definition mountEffect ::
    "session \<Rightarrow> collab \<Rightarrow> nat \<Rightarrow> 'a edit_page_scheme \<Rightarrow> 'a edit_page_scheme \<times> effect list" where
  "mountEffect sess env ident st =
     (case sess of
        SessionNull \<Rightarrow> (st, [])
      | SessionError \<Rightarrow> (st, [])
      | SessionData _ \<Rightarrow> fetchStudy env ident st)"

text \<open>What the edit page component returns when it renders.\<close>

datatype view = LoadingSpinner | RedirectLogin | EditForm

definition render_edit :: "session \<Rightarrow> 'a edit_page_scheme \<Rightarrow> view" where
  "render_edit sess st =
     (case sess of
        SessionNull \<Rightarrow> LoadingSpinner
      | SessionError \<Rightarrow> RedirectLogin
      | SessionData _ \<Rightarrow> if isLoading st then LoadingSpinner else EditForm)"

text \<open>
  The edit page before the record is loaded.  Its text area is not bound with
  \<open>register\<close>, so the \<open>description\<close> value is \<open>undefined\<close> until it is set.
\<close>

definition initial_edit_page :: edit_page where
  "initial_edit_page =
     page.extend (initial_page\<lparr>form_description := None\<rparr>)
       (edit_page.fields [] True True)"

text \<open>
  Collaborators that always answer: the storage accepts every upload under one URL and
  every delete, the backend answers every request with the given response.
\<close>

definition sample_collab :: "response \<Rightarrow> collab" where
  "sample_collab res =
     \<lparr> env_upload = (\<lambda>f. Inr (ascii ''https://storage/a.png'')),
       env_delete = (\<lambda>u. Inr ()),
       env_create = (\<lambda>r. Inr res),
       env_retrieve = (\<lambda>i. Inr res),
       env_dateAt = (\<lambda>h m. InvalidDate) \<rparr>"

definition sample_response :: "bool \<Rightarrow> nat \<Rightarrow> response" where
  "sample_response b code = \<lparr> ok = b, status = code, json = Inr None \<rparr>"

text \<open>
  A zod library with the issue codes and the English messages of its version 3, and
  an environment of the open-study page built on it.
\<close>

definition sample_zod :: zod_lib where
  "sample_zod =
     \<lparr> z_code = (\<lambda>k. case k of
                     InvalidType \<Rightarrow> ascii ''invalid_type''
                   | TooSmall \<Rightarrow> ascii ''too_small''
                   | TooBig \<Rightarrow> ascii ''too_big''
                   | InvalidEnumValue \<Rightarrow> ascii ''invalid_enum_value''),
       z_message = (\<lambda>k received. case k of
                     InvalidType \<Rightarrow> ascii ''Required''
                   | TooSmall \<Rightarrow> ascii ''Too small''
                   | TooBig \<Rightarrow> ascii ''Too big''
                   | InvalidEnumValue \<Rightarrow> ascii ''Invalid enum value'') \<rparr>"

definition sample_env :: page_env where
  "sample_env =
     \<lparr> pe_zod = sample_zod,
       pe_collab = sample_collab (sample_response True 201),
       pe_accessToken = ascii ''token'',
       pe_formatDateToTime = (\<lambda>d. ascii ''09:00''),
       pe_createObjectURL = (\<lambda>f. ascii ''blob:preview'') \<rparr>"

section \<open>Properties of the tag editor\<close>

text \<open>What each handler does to the tag list, the field error and the capacity message.\<close>

lemma handleDuplicateTag_tags:
  "form_tags (handleDuplicateTag st) =
     (if card (set (form_tags st @ [currentTag st])) = length (form_tags st)
      then form_tags st else form_tags st @ [currentTag st])"
  by (simp add: handleDuplicateTag_def Let_def)

lemma handleDuplicateTag_errors:
  "errors_tags (handleDuplicateTag st) =
     (if card (set (form_tags st @ [currentTag st])) = length (form_tags st)
      then Some \<lparr>errType = ascii ''Duplicate'', message = duplicate_msg\<rparr> else None)"
  by (simp add: handleDuplicateTag_def Let_def)

lemma handleTagAdd_tags:
  "form_tags (handleTagAdd key val st) =
     (if key = ascii ''Enter'' \<and> trim val \<noteq> [] \<and> length (form_tags st) \<noteq> 4
      then form_tags (handleDuplicateTag st) else form_tags st)"
  by (simp add: handleTagAdd_def Let_def)

lemma handleTagAdd_errors:
  "errors_tags (handleTagAdd key val st) =
     (if key = ascii ''Enter'' \<and> trim val \<noteq> [] \<and> length (form_tags st) \<noteq> 4
      then errors_tags (handleDuplicateTag st) else errors_tags st)"
  by (simp add: handleTagAdd_def Let_def)

lemma handleTagAdd_stackError:
  "stackError (handleTagAdd key val st) =
     (if length (form_tags st) = 4
      then (if trim val \<noteq> [] then capacity_msg else [])
      else stackError st)"
  by (simp add: handleTagAdd_def handleDuplicateTag_def Let_def)

lemma handleDuplicateTag_distinct:
  "distinct (form_tags st) \<Longrightarrow> distinct (form_tags (handleDuplicateTag st))"
  by (simp add: handleDuplicateTag_tags distinct_card card_insert_if)

lemma tag_step_distinct:
  "distinct (form_tags st) \<Longrightarrow> distinct (form_tags (tag_step st ev))"
  by (cases ev)
     (simp_all add: handleTagChange_def handleTagAdd_tags clickAddButton_def clickReset_def
        handleDuplicateTag_distinct)

text \<open>
  Claim C4.  A tag addition on a list of at most four entries, by the key handler or by
  the \<open>+\<close> button, leaves a list of at most four entries.  With exactly four entries
  and an input that is not blank, the key handler sets the capacity message and leaves
  the list as it was, whatever the key.
\<close>

theorem tag_add_capacity:
  "length (form_tags st) \<le> 4 \<Longrightarrow>
     length (form_tags (handleTagAdd key val st)) \<le> 4 \<and>
     length (form_tags (clickAddButton st)) \<le> 4 \<and>
     (length (form_tags st) = 4 \<and> trim val \<noteq> [] \<longrightarrow>
        stackError (handleTagAdd key val st) = capacity_msg \<and>
        form_tags (handleTagAdd key val st) = form_tags st)"
  by (simp add: handleTagAdd_tags handleTagAdd_stackError handleDuplicateTag_tags
        clickAddButton_def addButtonDisabled_def)

theorem tag_add_capacity_witness:
  "length (form_tags (initial_page\<lparr>form_tags := [[0x61], [0x62], [0x63], [0x64]], currentTag := [0x65]\<rparr>)) \<le> 4 \<and>
   length (form_tags (initial_page\<lparr>form_tags := [[0x61], [0x62], [0x63], [0x64]], currentTag := [0x65]\<rparr>)) = 4 \<and>
   trim [0x65] \<noteq> [] \<and>
   stackError (handleTagAdd (ascii ''Enter'') [0x65]
      (initial_page\<lparr>form_tags := [[0x61], [0x62], [0x63], [0x64]], currentTag := [0x65]\<rparr>)) = capacity_msg \<and>
   form_tags (handleTagAdd (ascii ''Enter'') [0x65]
      (initial_page\<lparr>form_tags := [[0x61], [0x62], [0x63], [0x64]], currentTag := [0x65]\<rparr>)) = [[0x61], [0x62], [0x63], [0x64]]"
  using tag_add_capacity [of "initial_page\<lparr>form_tags := [[0x61], [0x62], [0x63], [0x64]], currentTag := [0x65]\<rparr>"
      "ascii ''Enter''" "[0x65]"]
  by (simp add: trim_def isWhiteSpace_def)

text \<open>
  Claim C5.  On a list of fewer than four entries, \<open>Enter\<close> on an input that is not
  blank (the input text being the \<open>currentTag\<close> cell) does this: when the set of the
  tags with the candidate has as many elements as the list has entries, the
  \<open>Duplicate\<close> field error is set and the list is kept; otherwise the candidate is
  appended and the field error of \<open>tags\<close> is cleared.  The \<open>+\<close> button does the same.
  On a duplicate-free list the test on the cardinality says that the candidate is one
  of the entries.
\<close>

theorem tag_add_duplicate_or_append:
  assumes "length (form_tags st) < 4" and "trim (currentTag st) \<noteq> []"
  shows "(card (set (form_tags st @ [currentTag st])) = length (form_tags st) \<longrightarrow>
            errors_tags (handleTagAdd (ascii ''Enter'') (currentTag st) st) =
              Some \<lparr>errType = ascii ''Duplicate'', message = duplicate_msg\<rparr> \<and>
            form_tags (handleTagAdd (ascii ''Enter'') (currentTag st) st) = form_tags st) \<and>
         (card (set (form_tags st @ [currentTag st])) \<noteq> length (form_tags st) \<longrightarrow>
            form_tags (handleTagAdd (ascii ''Enter'') (currentTag st) st) =
              form_tags st @ [currentTag st] \<and>
            errors_tags (handleTagAdd (ascii ''Enter'') (currentTag st) st) = None) \<and>
         clickAddButton st = handleTagAdd (ascii ''Enter'') (currentTag st) st \<and>
         (distinct (form_tags st) \<longrightarrow>
            (card (set (form_tags st @ [currentTag st])) = length (form_tags st)
               \<longleftrightarrow> currentTag st \<in> set (form_tags st)))"
proof -
  have red: "handleTagAdd (ascii ''Enter'') (currentTag st) st = handleDuplicateTag st"
    using assms by (simp add: handleTagAdd_def Let_def)
  have btn: "clickAddButton st = handleDuplicateTag st"
    using assms by (simp add: clickAddButton_def addButtonDisabled_def)
  have gloss: "card (set (form_tags st @ [currentTag st])) = length (form_tags st)
                 \<longleftrightarrow> currentTag st \<in> set (form_tags st)" if "distinct (form_tags st)"
    using that by (simp add: distinct_card card_insert_if)
  show ?thesis
    using gloss by (simp add: red btn handleDuplicateTag_tags handleDuplicateTag_errors)
qed

theorem tag_add_duplicate_or_append_witness:
  "length (form_tags (initial_page\<lparr>form_tags := [[0x61], [0x62]], currentTag := [0x62]\<rparr>)) < 4 \<and>
   trim (currentTag (initial_page\<lparr>form_tags := [[0x61], [0x62]], currentTag := [0x62]\<rparr>)) \<noteq> [] \<and>
   errors_tags (handleTagAdd (ascii ''Enter'') [0x62]
      (initial_page\<lparr>form_tags := [[0x61], [0x62]], currentTag := [0x62]\<rparr>)) =
     Some \<lparr>errType = ascii ''Duplicate'', message = duplicate_msg\<rparr> \<and>
   form_tags (handleTagAdd (ascii ''Enter'') [0x62]
      (initial_page\<lparr>form_tags := [[0x61], [0x62]], currentTag := [0x62]\<rparr>)) = [[0x61], [0x62]] \<and>
   length (form_tags (initial_page\<lparr>form_tags := [[0x61], [0x62]], currentTag := [0x63]\<rparr>)) < 4 \<and>
   trim (currentTag (initial_page\<lparr>form_tags := [[0x61], [0x62]], currentTag := [0x63]\<rparr>)) \<noteq> [] \<and>
   form_tags (handleTagAdd (ascii ''Enter'') [0x63]
      (initial_page\<lparr>form_tags := [[0x61], [0x62]], currentTag := [0x63]\<rparr>)) =
     [[0x61], [0x62], [0x63]] \<and>
   errors_tags (handleTagAdd (ascii ''Enter'') [0x63]
      (initial_page\<lparr>form_tags := [[0x61], [0x62]], currentTag := [0x63]\<rparr>)) = None"
  using tag_add_duplicate_or_append
          [of "initial_page\<lparr>form_tags := [[0x61], [0x62]], currentTag := [0x62]\<rparr>"]
        tag_add_duplicate_or_append
          [of "initial_page\<lparr>form_tags := [[0x61], [0x62]], currentTag := [0x63]\<rparr>"]
  by (simp add: trim_def isWhiteSpace_def)

text \<open>
  Claim C6.  From a list without two equal entries, every run of typing, key events,
  clicks on \<open>+\<close> and resets ends in a list without two equal entries.
\<close>

theorem tag_run_distinct:
  "distinct (form_tags st) \<Longrightarrow> distinct (form_tags (tag_run st evs))"
  unfolding tag_run_def
  by (induction evs arbitrary: st) (simp_all add: tag_step_distinct)

theorem tag_run_distinct_witness:
  "distinct (form_tags initial_page) \<and>
   distinct (form_tags (tag_run initial_page
      [TagChange [0x61], TagKeyUp (ascii ''Enter'') [0x61],
       TagChange [0x61], ClickAdd, TagChange [0x62], ClickAdd, ClickReset,
       TagChange [0x62], TagKeyUp (ascii ''Enter'') [0x62]]))"
  using tag_run_distinct [of initial_page
      "[TagChange [0x61], TagKeyUp (ascii ''Enter'') [0x61],
       TagChange [0x61], ClickAdd, TagChange [0x62], ClickAdd, ClickReset,
       TagChange [0x62], TagKeyUp (ascii ''Enter'') [0x62]]"]
  by (simp add: initial_page_def)

text \<open>
  Claim C7, as stated, fails: the input \<open>" a"\<close> (a space and \<open>a\<close>) is appended with
  its space, while its trimmed text is \<open>"a"\<close>.
\<close>

theorem tag_add_not_trimmed_counterexample:
  "form_tags (handleTagAdd (ascii ''Enter'') [0x20, 0x61]
      (initial_page\<lparr>currentTag := [0x20, 0x61]\<rparr>)) = [[0x20, 0x61]] \<and>
   trim [0x20, 0x61] = [0x61] \<and>
   form_tags (handleTagAdd (ascii ''Enter'') [0x20, 0x61]
      (initial_page\<lparr>currentTag := [0x20, 0x61]\<rparr>)) \<noteq>
     form_tags (initial_page\<lparr>currentTag := [0x20, 0x61]\<rparr>) @ [trim [0x20, 0x61]]"
  by (simp add: handleTagAdd_def handleDuplicateTag_def initial_page_def trim_def
        isWhiteSpace_def ascii_def)

text \<open>
  Claim C7, amended.  The trimmed input only decides whether the input is blank.  A
  blank input changes neither the list nor the field error of \<open>tags\<close>, by the key
  handler and by the \<open>+\<close> button alike; and whenever an addition changes the list, the
  new list is the old one followed by the \<open>currentTag\<close> cell as typed, untrimmed.
\<close>

theorem tag_add_trim_guards_only:
  "(trim val = [] \<longrightarrow>
      form_tags (handleTagAdd key val st) = form_tags st \<and>
      errors_tags (handleTagAdd key val st) = errors_tags st) \<and>
   (trim (currentTag st) = [] \<longrightarrow> clickAddButton st = st) \<and>
   (form_tags (handleTagAdd key val st) \<noteq> form_tags st \<longrightarrow>
      form_tags (handleTagAdd key val st) = form_tags st @ [currentTag st]) \<and>
   (form_tags (clickAddButton st) \<noteq> form_tags st \<longrightarrow>
      form_tags (clickAddButton st) = form_tags st @ [currentTag st])"
  by (simp add: handleTagAdd_tags handleTagAdd_errors handleDuplicateTag_tags
        clickAddButton_def addButtonDisabled_def)

theorem tag_add_trim_guards_only_witness:
  "trim [0x20, 0x09] = [] \<and>
   form_tags (handleTagAdd (ascii ''Enter'') [0x20, 0x09]
      (initial_page\<lparr>form_tags := [[0x61]], currentTag := [0x20, 0x09]\<rparr>)) = [[0x61]] \<and>
   errors_tags (handleTagAdd (ascii ''Enter'') [0x20, 0x09]
      (initial_page\<lparr>form_tags := [[0x61]], currentTag := [0x20, 0x09]\<rparr>)) = None \<and>
   clickAddButton (initial_page\<lparr>form_tags := [[0x61]], currentTag := [0x20, 0x09]\<rparr>) =
     initial_page\<lparr>form_tags := [[0x61]], currentTag := [0x20, 0x09]\<rparr> \<and>
   form_tags (handleTagAdd (ascii ''Enter'') [0x20, 0x62]
      (initial_page\<lparr>form_tags := [[0x61]], currentTag := [0x20, 0x62]\<rparr>)) \<noteq> [[0x61]] \<and>
   form_tags (handleTagAdd (ascii ''Enter'') [0x20, 0x62]
      (initial_page\<lparr>form_tags := [[0x61]], currentTag := [0x20, 0x62]\<rparr>)) =
     [[0x61], [0x20, 0x62]] \<and>
   form_tags (clickAddButton (initial_page\<lparr>form_tags := [[0x61]], currentTag := [0x20, 0x62]\<rparr>)) =
     [[0x61], [0x20, 0x62]]"
  using tag_add_trim_guards_only
          [of "[0x20, 0x09]" "ascii ''Enter''"
              "initial_page\<lparr>form_tags := [[0x61]], currentTag := [0x20, 0x09]\<rparr>"]
        tag_add_trim_guards_only
          [of "[0x20, 0x62]" "ascii ''Enter''"
              "initial_page\<lparr>form_tags := [[0x61]], currentTag := [0x20, 0x62]\<rparr>"]
  by (simp add: handleTagAdd_def handleDuplicateTag_def clickAddButton_def
        addButtonDisabled_def initial_page_def trim_def isWhiteSpace_def ascii_def)

section \<open>Properties of the time selector\<close>

text \<open>
  Claim C9.  The change handlers of the start and the end time return the state as it
  is for an \<open>undefined\<close> value: the stored field and the picker cell keep a time set
  before.  For a defined value they store the formatted string in the field and the
  value in the picker cell.
\<close>

theorem time_change_undefined_noop:
  "onChangeStartTime formatDateToTime None st = st \<and>
   onChangeEndTime formatDateToTime None st = st \<and>
   onChangeStartTime formatDateToTime (Some d) st =
     st\<lparr>form_startTime := Some (formatDateToTime d), startTime := Some d\<rparr> \<and>
   onChangeEndTime formatDateToTime (Some d) st =
     st\<lparr>form_endTime := Some (formatDateToTime d), endTime := Some d\<rparr> \<and>
   form_startTime (onChangeStartTime formatDateToTime (Some d) st) = Some (formatDateToTime d) \<and>
   form_endTime (onChangeEndTime formatDateToTime (Some d) st) = Some (formatDateToTime d)"
  by (simp add: onChangeStartTime_def onChangeEndTime_def)

section \<open>Properties of the create flow\<close>

lemma onSubmit_staged_ok:
  "imageFile st = Some f \<Longrightarrow> env_upload env f = Inr url \<Longrightarrow>
   env_create env (create_request tok data url) = Inr res \<Longrightarrow>
   onSubmit env tok st data =
     (if \<not> ok res
      then (env_delete env url,
            [ClickCloseDialog, Upload f, FetchCreate (create_request tok data url),
             FileDelete url])
      else (Inr (),
            [ClickCloseDialog, Upload f, FetchCreate (create_request tok data url),
             FileCommit url, Toast created_toast, RouterPush ROUTES_STUDY_index]))"
  by (simp add: onSubmit_def Let_def)

text \<open>
  Claim C1.  With a staged image, an upload that resolves and a create call that
  answers with a response that is not \<open>ok\<close>, \<open>onSubmit\<close> deletes the object it has
  just uploaded and stops: it commits nothing, pushes no route and raises no toast.
  This holds for every form data, valid or not.
\<close>

theorem create_failure_rolls_back:
  assumes "imageFile st = Some f"
    and "env_upload env f = Inr url"
    and "env_create env (create_request tok data url) = Inr res"
    and "\<not> ok res"
  shows "snd (onSubmit env tok st data) =
           [ClickCloseDialog, Upload f, FetchCreate (create_request tok data url),
            FileDelete url] \<and>
         fst (onSubmit env tok st data) = env_delete env url \<and>
         FileDelete url \<in> set (snd (onSubmit env tok st data)) \<and>
         (\<forall>u. FileCommit u \<notin> set (snd (onSubmit env tok st data))) \<and>
         (\<forall>r. RouterPush r \<notin> set (snd (onSubmit env tok st data))) \<and>
         (\<forall>t. Toast t \<notin> set (snd (onSubmit env tok st data)))"
  using assms by (simp add: onSubmit_staged_ok)

theorem create_failure_rolls_back_witness:
  "imageFile (initial_page\<lparr>imageFile := Some (FileHandle 0)\<rparr>) = Some (FileHandle 0) \<and>
   env_upload (sample_collab (sample_response False 500)) (FileHandle 0) =
     Inr (ascii ''https://storage/a.png'') \<and>
   env_create (sample_collab (sample_response False 500))
     (create_request (ascii ''token'') Map.empty (ascii ''https://storage/a.png'')) =
     Inr (sample_response False 500) \<and>
   \<not> ok (sample_response False 500) \<and>
   snd (onSubmit (sample_collab (sample_response False 500)) (ascii ''token'')
          (initial_page\<lparr>imageFile := Some (FileHandle 0)\<rparr>) Map.empty) =
     [ClickCloseDialog, Upload (FileHandle 0),
      FetchCreate (create_request (ascii ''token'') Map.empty (ascii ''https://storage/a.png'')),
      FileDelete (ascii ''https://storage/a.png'')]"
  using create_failure_rolls_back
          [of "initial_page\<lparr>imageFile := Some (FileHandle 0)\<rparr>" "FileHandle 0"
              "sample_collab (sample_response False 500)" "ascii ''https://storage/a.png''"
              "ascii ''token''" Map.empty "sample_response False 500"]
  by (simp add: sample_collab_def sample_response_def)

text \<open>
  Claim C2.  With a staged image, \<open>onSubmit\<close> first closes the dialog and uploads the
  file; every create call comes after the upload.  When the upload resolves and the
  create call answers \<open>ok\<close>, the upload is committed and not deleted, the success toast
  is raised and the router goes to the study listing, in this order.
\<close>

theorem create_success_commits:
  assumes "imageFile st = Some f"
  shows "(\<exists>rest. snd (onSubmit env tok st data) = [ClickCloseDialog, Upload f] @ rest \<and>
                 Upload f \<notin> set rest \<and>
                 (\<forall>req. FetchCreate req \<in> set (snd (onSubmit env tok st data))
                          \<longrightarrow> FetchCreate req \<in> set rest)) \<and>
         (\<forall>url res. env_upload env f = Inr url \<and>
                     env_create env (create_request tok data url) = Inr res \<and> ok res \<longrightarrow>
            onSubmit env tok st data =
              (Inr (),
               [ClickCloseDialog, Upload f, FetchCreate (create_request tok data url),
                FileCommit url, Toast created_toast, RouterPush ROUTES_STUDY_index]))"
  using assms
  by (auto simp add: onSubmit_def Let_def split: sum.splits)

theorem create_success_commits_witness:
  "imageFile (initial_page\<lparr>imageFile := Some (FileHandle 0)\<rparr>) = Some (FileHandle 0) \<and>
   env_upload (sample_collab (sample_response True 201)) (FileHandle 0) =
     Inr (ascii ''https://storage/a.png'') \<and>
   env_create (sample_collab (sample_response True 201))
     (create_request (ascii ''token'') Map.empty (ascii ''https://storage/a.png'')) =
     Inr (sample_response True 201) \<and>
   ok (sample_response True 201) \<and>
   onSubmit (sample_collab (sample_response True 201)) (ascii ''token'')
          (initial_page\<lparr>imageFile := Some (FileHandle 0)\<rparr>) Map.empty =
     (Inr (),
      [ClickCloseDialog, Upload (FileHandle 0),
       FetchCreate (create_request (ascii ''token'') Map.empty (ascii ''https://storage/a.png'')),
       FileCommit (ascii ''https://storage/a.png''), Toast created_toast,
       RouterPush ROUTES_STUDY_index])"
  using create_success_commits
          [of "initial_page\<lparr>imageFile := Some (FileHandle 0)\<rparr>" "FileHandle 0"
              "sample_collab (sample_response True 201)" "ascii ''token''" Map.empty]
  by (simp add: sample_collab_def sample_response_def)

text \<open>
  The staged file and the \<open>imageSrc\<close> value are set together, and nothing unsets
  either: while no file is staged, \<open>imageSrc\<close> is \<open>undefined\<close>.  The other actions
  touch neither.
\<close>

lemma handleDuplicateTag_image:
  "imageFile (handleDuplicateTag st) = imageFile st \<and>
   form_imageSrc (handleDuplicateTag st) = form_imageSrc st"
  by (simp add: handleDuplicateTag_def Let_def)

lemma tag_step_image:
  "imageFile (tag_step st ev) = imageFile st \<and>
   form_imageSrc (tag_step st ev) = form_imageSrc st"
  by (cases ev)
     (simp_all add: handleTagChange_def handleTagAdd_def clickAddButton_def clickReset_def
        handleDuplicateTag_image Let_def)

lemma validate_form_image:
  "imageFile (validate_form zod st) = imageFile st \<and>
   form_imageSrc (validate_form zod st) = form_imageSrc st"
  by (simp add: validate_form_def)

lemma handleSubmit_state:
  "fst (handleSubmit zod env tok st) = validate_form zod st"
  by (simp add: handleSubmit_def Let_def)

lemma open_step_staged:
  assumes "imageFile st = None \<longrightarrow> form_imageSrc st = None"
  shows "imageFile (open_step env st ev) = None \<longrightarrow> form_imageSrc (open_step env st ev) = None"
proof (cases ev)
  case (TagEvent x)
  with assms show ?thesis by (simp add: tag_step_image)
next
  case (FileChange targetFiles)
  with assms show ?thesis
    by (cases targetFiles) (simp_all add: handleFileChange_def Let_def)
next
  case (StartTimeChange d)
  with assms show ?thesis by (cases d) (simp_all add: onChangeStartTime_def)
next
  case (EndTimeChange d)
  with assms show ?thesis by (cases d) (simp_all add: onChangeEndTime_def)
next
  case (ClickSubmitButton b)
  with assms show ?thesis by (simp add: Let_def validate_form_image)
next
  case SubmitForm
  with assms show ?thesis by (simp add: handleSubmit_state validate_form_image)
qed (use assms in simp_all)

lemma open_run_staged:
  "imageFile st = None \<longrightarrow> form_imageSrc st = None \<Longrightarrow>
   imageFile (open_run env st evs) = None \<longrightarrow> form_imageSrc (open_run env st evs) = None"
  unfolding open_run_def
proof (induction evs arbitrary: st)
  case Nil
  then show ?case by simp
next
  case (Cons ev evs)
  from Cons.prems have "imageFile (open_step env st ev) = None \<longrightarrow>
      form_imageSrc (open_step env st ev) = None"
    by (rule open_step_staged)
  then show ?case using Cons.IH by simp
qed

lemma handleSubmit_without_imageSrc:
  assumes "form_imageSrc st = None"
  shows "handleSubmit zod env tok st = (validate_form zod st, Inr (), [])"
    and "errors_imageSrc (validate_form zod st) = Some (issue zod InvalidType image_required_msg)"
proof -
  show e: "errors_imageSrc (validate_form zod st) =
      Some (issue zod InvalidType image_required_msg)"
    using assms by (simp add: validate_form_def schema_required_def)
  then have "\<not> no_errors (validate_form zod st)"
    by (simp add: no_errors_def)
  then show "handleSubmit zod env tok st = (validate_form zod st, Inr (), [])"
    by (simp add: handleSubmit_def Let_def)
qed

lemma handleSubmit_valid:
  "no_errors (validate_form zod st) \<Longrightarrow>
   handleSubmit zod env tok st =
     (validate_form zod st,
      onSubmit env tok (validate_form zod st) (form_data (validate_form zod st)))"
  by (simp add: handleSubmit_def Let_def)

lemma onSubmit_without_file:
  "imageFile st = None \<Longrightarrow> onSubmit env tok st data = (Inr (), [ClickCloseDialog])"
  by (simp add: onSubmit_def)

text \<open>
  Claim C8, as stated, fails: a submission of the page as it is after its mount, with
  no image staged, leaves a validation error on \<open>imageSrc\<close>, where there was none.
\<close>

theorem create_without_image_counterexample:
  "imageFile initial_page = None \<and>
   errors_imageSrc initial_page = None \<and>
   errors_imageSrc
     (fst (handleSubmit sample_zod (sample_collab (sample_response True 201))
             (ascii ''token'') initial_page)) =
     Some \<lparr>errType = ascii ''invalid_type'', message = image_required_msg\<rparr>"
  by (simp add: handleSubmit_def Let_def validate_form_def schema_required_def issue_def
        sample_zod_def initial_page_def)

text \<open>
  Claim C8, amended.  After every run of actions on the open-study page that leaves
  no image staged, a submission uploads nothing, does not call the create endpoint,
  raises no toast and goes nowhere: \<open>handleSubmit\<close> makes no call at all, and does not
  enter \<open>onSubmit\<close>.  It is not silent: the schema leaves the required error of
  \<open>imageSrc\<close>.  The guard of \<open>onSubmit\<close> itself, were it entered without a staged
  file, closes the dialog and returns.
\<close>

theorem create_without_image_rejected:
  assumes "imageFile (open_run env initial_page evs) = None"
  shows "handleSubmit zod c tok (open_run env initial_page evs) =
           (validate_form zod (open_run env initial_page evs), Inr (), []) \<and>
         errors_imageSrc (fst (handleSubmit zod c tok (open_run env initial_page evs))) =
           Some (issue zod InvalidType image_required_msg) \<and>
         onSubmit c tok (open_run env initial_page evs) data = (Inr (), [ClickCloseDialog])"
proof -
  have "imageFile initial_page = None \<longrightarrow> form_imageSrc initial_page = None"
    by (simp add: initial_page_def)
  then have "form_imageSrc (open_run env initial_page evs) = None"
    using open_run_staged [of initial_page env evs] assms by simp
  then show ?thesis
    using assms
    by (simp add: handleSubmit_without_imageSrc onSubmit_without_file)
qed

theorem create_without_image_rejected_witness:
  "imageFile (open_run sample_env initial_page
      [TitleInput (ascii ''Rust study''), DaySelect [0xC6D4],
       TagEvent (TagChange (ascii ''rust'')), TagEvent ClickAdd,
       FileChange [], ClickSubmitButton False]) = None \<and>
   snd (handleSubmit sample_zod (sample_collab (sample_response True 201)) (ascii ''token'')
      (open_run sample_env initial_page
        [TitleInput (ascii ''Rust study''), DaySelect [0xC6D4],
         TagEvent (TagChange (ascii ''rust'')), TagEvent ClickAdd,
         FileChange [], ClickSubmitButton False])) = (Inr (), []) \<and>
   errors_imageSrc
     (fst (handleSubmit sample_zod (sample_collab (sample_response True 201)) (ascii ''token'')
        (open_run sample_env initial_page
          [TitleInput (ascii ''Rust study''), DaySelect [0xC6D4],
           TagEvent (TagChange (ascii ''rust'')), TagEvent ClickAdd,
           FileChange [], ClickSubmitButton False]))) =
     Some \<lparr>errType = ascii ''invalid_type'', message = image_required_msg\<rparr>"
proof -
  have h: "imageFile (open_run sample_env initial_page
      [TitleInput (ascii ''Rust study''), DaySelect [0xC6D4],
       TagEvent (TagChange (ascii ''rust'')), TagEvent ClickAdd,
       FileChange [], ClickSubmitButton False]) = None"
    by (simp add: open_run_def handleTagChange_def clickAddButton_def addButtonDisabled_def
          handleDuplicateTag_def validate_form_def handleFileChange_def initial_page_def
          trim_def isWhiteSpace_def ascii_def Let_def)
  have i: "issue sample_zod InvalidType image_required_msg =
      \<lparr>errType = ascii ''invalid_type'', message = image_required_msg\<rparr>"
    by (simp add: issue_def sample_zod_def)
  show ?thesis
    using h create_without_image_rejected
          [OF h, of sample_zod "sample_collab (sample_response True 201)" "ascii ''token''"
             Map.empty]
    by (simp add: i handleSubmit_state)
qed

text \<open>
  Claim C10.  The body of every create call of \<open>onSubmit\<close> carries
  \<open>isRecruiting = true\<close>, \<open>semester = 'Spring'\<close> and \<open>year = 2025\<close>, and its
  \<open>imageSrc\<close> is the URL the storage returned for the staged file, whatever the form
  data hold under these names.
\<close>

theorem create_payload_constants:
  assumes "FetchCreate req \<in> set (snd (onSubmit env tok st data))"
  shows "body req ''isRecruiting'' = Some (JBool True) \<and>
         body req ''semester'' = Some (JStr (ascii ''Spring'')) \<and>
         body req ''year'' = Some (JNum 2025) \<and>
         (\<exists>f fileUrl. imageFile st = Some f \<and> env_upload env f = Inr fileUrl \<and>
                       body req ''imageSrc'' = Some (JStr fileUrl))"
  using assms
  by (auto simp add: onSubmit_def Let_def create_request_def create_payload_def
        split: option.splits sum.splits if_splits)

theorem create_payload_constants_witness:
  "FetchCreate
     (create_request (ascii ''token'')
        (Map.empty(''imageSrc'' \<mapsto> JStr (ascii ''blob:preview''),
                   ''semester'' \<mapsto> JStr (ascii ''Fall''),
                   ''year'' \<mapsto> JNum 1999,
                   ''isRecruiting'' \<mapsto> JBool False))
        (ascii ''https://storage/a.png''))
     \<in> set (snd (onSubmit (sample_collab (sample_response True 201)) (ascii ''token'')
          (initial_page\<lparr>imageFile := Some (FileHandle 0)\<rparr>)
          (Map.empty(''imageSrc'' \<mapsto> JStr (ascii ''blob:preview''),
                     ''semester'' \<mapsto> JStr (ascii ''Fall''),
                     ''year'' \<mapsto> JNum 1999,
                     ''isRecruiting'' \<mapsto> JBool False)))) \<and>
   body (create_request (ascii ''token'')
        (Map.empty(''imageSrc'' \<mapsto> JStr (ascii ''blob:preview''),
                   ''semester'' \<mapsto> JStr (ascii ''Fall''),
                   ''year'' \<mapsto> JNum 1999,
                   ''isRecruiting'' \<mapsto> JBool False))
        (ascii ''https://storage/a.png'')) ''year'' = Some (JNum 2025) \<and>
   body (create_request (ascii ''token'')
        (Map.empty(''imageSrc'' \<mapsto> JStr (ascii ''blob:preview''),
                   ''semester'' \<mapsto> JStr (ascii ''Fall''),
                   ''year'' \<mapsto> JNum 1999,
                   ''isRecruiting'' \<mapsto> JBool False))
        (ascii ''https://storage/a.png'')) ''isRecruiting'' = Some (JBool True)"
  using create_payload_constants
          [of "create_request (ascii ''token'')
        (Map.empty(''imageSrc'' \<mapsto> JStr (ascii ''blob:preview''),
                   ''semester'' \<mapsto> JStr (ascii ''Fall''),
                   ''year'' \<mapsto> JNum 1999,
                   ''isRecruiting'' \<mapsto> JBool False))
        (ascii ''https://storage/a.png'')"
              "sample_collab (sample_response True 201)" "ascii ''token''"
              "initial_page\<lparr>imageFile := Some (FileHandle 0)\<rparr>"
              "Map.empty(''imageSrc'' \<mapsto> JStr (ascii ''blob:preview''),
                   ''semester'' \<mapsto> JStr (ascii ''Fall''),
                   ''year'' \<mapsto> JNum 1999,
                   ''isRecruiting'' \<mapsto> JBool False)"]
  by (simp add: onSubmit_def Let_def sample_collab_def sample_response_def)

section \<open>The edit flow at a record that does not exist\<close>

text \<open>
  Claim C3 does not hold of the code.  At a response that is not \<open>ok\<close> with status
  404 the \<open>try\<close> block calls \<open>notFound()\<close>, but the error it throws is taken by the
  \<open>catch\<close> block of the same function: the destructive toast is raised,
  \<open>isLoading\<close> is cleared and the page renders the form.
\<close>

theorem fetchStudy_not_found_is_caught:
  "fetchStudy_try (sample_collab (sample_response False 404)) 7 initial_edit_page =
     Inl NEXT_NOT_FOUND \<and>
   mountEffect (SessionData (ascii ''token'')) (sample_collab (sample_response False 404)) 7
       initial_edit_page =
     (initial_edit_page\<lparr>isLoading := False\<rparr>,
      [FetchRetrieve 7, ConsoleError NEXT_NOT_FOUND, Toast load_failed_toast]) \<and>
   render_edit (SessionData (ascii ''token''))
     (fst (mountEffect (SessionData (ascii ''token''))
            (sample_collab (sample_response False 404)) 7 initial_edit_page)) = EditForm"
  by (simp add: mountEffect_def fetchStudy_def fetchStudy_try_def notFound_def
        HttpStatusCode_NotFound_def sample_collab_def sample_response_def render_edit_def)

end
